theory Spec2Isabelle
  imports Complex_Main "HOL-Library.Multiset"
begin

section \<open>Samples: floating-point values with a not-a-number element\<close>

text \<open>
  The notebook computes on numpy arrays of floats in which \<open>np.nan\<close> marks a missing
  sample. A sample is either \<open>NaN\<close> or a finite number. \<open>fadd\<close> and \<open>fmul\<close> are
  exact: they do not round, and overflow to infinity is outside the model. The same
  statements with the rounding of float64 are given further down, for the property that
  depends on the rounding. \<open>NaN\<close> absorbs in \<open>+\<close> and \<open>*\<close> (so \<open>0 * nan\<close> is
  \<open>nan\<close>) and compares unequal to everything, itself included.
\<close>

datatype fval = NaN | Fin real

fun isnan :: "fval \<Rightarrow> bool" where
  "isnan NaN = True"
| "isnan (Fin x) = False"

fun fadd :: "fval \<Rightarrow> fval \<Rightarrow> fval" where
  "fadd (Fin a) (Fin b) = Fin (a + b)"
| "fadd _ _ = NaN"

fun fmul :: "fval \<Rightarrow> fval \<Rightarrow> fval" where
  "fmul (Fin a) (Fin b) = Fin (a * b)"
| "fmul _ _ = NaN"

text \<open>\<open>==\<close> on floats.\<close>

fun np_eq :: "fval \<Rightarrow> fval \<Rightarrow> bool" where
  "np_eq (Fin a) (Fin b) = (a = b)"
| "np_eq _ _ = False"

text \<open>A boolean used as a factor: \<open>True\<close> is 1.0 and \<open>False\<close> is 0.0.\<close>

definition as_float :: "bool \<Rightarrow> fval" where
  "as_float b = Fin (if b then 1 else 0)"

text \<open>A sample with \<open>nan\<close> read as 0.\<close>

definition clean :: "fval \<Rightarrow> fval" where
  "clean v = (if isnan v then Fin 0 else v)"

text \<open>
  With \<open>0.0\<close> and \<open>+\<close> the samples form a commutative monoid, which gives sums over
  lists and multisets of samples.
\<close>

instantiation fval :: comm_monoid_add
begin

definition zero_fval :: fval where
  "zero_fval = Fin 0"

definition plus_fval :: "fval \<Rightarrow> fval \<Rightarrow> fval" where
  "plus_fval = fadd"

instance
proof
  fix a b c :: fval
  show "a + b + c = a + (b + c)"
    unfolding plus_fval_def by (cases a; cases b; cases c) simp_all
  show "a + b = b + a"
    unfolding plus_fval_def by (cases a; cases b) simp_all
  show "0 + a = a"
    unfolding plus_fval_def zero_fval_def by (cases a) simp_all
qed

end

section \<open>Two-dimensional arrays\<close>

text \<open>
  A 2-D numpy array is the list of its rows. A numpy array is rectangular; \<open>rect H W a\<close>
  says so of a list of rows. The width of an array with no rows is taken to be 0.
\<close>

type_synonym raster = "fval list list"

definition nrows :: "'a list list \<Rightarrow> nat" where
  "nrows a = length a"

definition ncols :: "'a list list \<Rightarrow> nat" where
  "ncols a = (case a of [] \<Rightarrow> 0 | r # _ \<Rightarrow> length r)"

definition rect :: "nat \<Rightarrow> nat \<Rightarrow> 'a list list \<Rightarrow> bool" where
  "rect H W a = (length a = H \<and> list_all (\<lambda>r. length r = W) a)"

definition tabulate2 :: "nat \<Rightarrow> nat \<Rightarrow> (nat \<Rightarrow> nat \<Rightarrow> 'a) \<Rightarrow> 'a list list" where
  "tabulate2 H W f = map (\<lambda>i. map (\<lambda>j. f i j) [0..<W]) [0..<H]"

text \<open>\<open>np.zeros((H, W))\<close>.\<close>

definition np_zeros :: "nat \<Rightarrow> nat \<Rightarrow> raster" where
  "np_zeros H W = replicate H (replicate W (Fin 0))"

text \<open>
  Broadcasting of numpy: two axis lengths are compatible when they are equal or one of
  them is 1; an axis of length 1 is read at index 0 whatever the index asked for.
\<close>

definition broadcast_dim :: "nat \<Rightarrow> nat \<Rightarrow> nat option" where
  "broadcast_dim a b =
     (if a = b then Some a else if a = 1 then Some b else if b = 1 then Some a else None)"

definition bget :: "'a list list \<Rightarrow> nat \<Rightarrow> nat \<Rightarrow> 'a" where
  "bget a i j = a ! (if nrows a = 1 then 0 else i) ! (if ncols a = 1 then 0 else j)"

datatype error = KeyError | ValueError

text \<open>An elementwise binary operator on two arrays, with broadcasting.\<close>

definition broadcast2 ::
  "('a \<Rightarrow> 'b \<Rightarrow> 'c) \<Rightarrow> 'a list list \<Rightarrow> 'b list list \<Rightarrow> error + 'c list list" where
  "broadcast2 f a b =
     (case broadcast_dim (nrows a) (nrows b) of
        None \<Rightarrow> Inl ValueError
      | Some h \<Rightarrow>
          (case broadcast_dim (ncols a) (ncols b) of
             None \<Rightarrow> Inl ValueError
           | Some w \<Rightarrow> Inr (tabulate2 h w (\<lambda>i j. f (bget a i j) (bget b i j)))))"

text \<open>\<open>array == scalar\<close>: a boolean array of the same shape.\<close>

definition np_eq_scalar :: "raster \<Rightarrow> int \<Rightarrow> bool list list" where
  "np_eq_scalar a k = map (map (\<lambda>v. np_eq v (Fin (of_int k)))) a"

text \<open>\<open>array * scalar\<close>.\<close>

definition np_mul_scalar :: "raster \<Rightarrow> fval \<Rightarrow> raster" where
  "np_mul_scalar a w = map (map (\<lambda>v. fmul v w)) a"

text \<open>
  \<open>acc += rhs\<close> in place: \<open>rhs\<close> is broadcast to the shape of \<open>acc\<close>, which cannot
  grow, so each axis of \<open>rhs\<close> has the length of that axis of \<open>acc\<close> or length 1.
\<close>

definition np_iadd :: "raster \<Rightarrow> raster \<Rightarrow> error + raster" where
  "np_iadd acc rhs =
     (if (nrows rhs = nrows acc \<or> nrows rhs = 1) \<and> (ncols rhs = ncols acc \<or> ncols rhs = 1)
      then Inr (tabulate2 (nrows acc) (ncols acc) (\<lambda>i j. fadd (acc ! i ! j) (bget rhs i j)))
      else Inl ValueError)"

section \<open>The mineral dataset and the grouping table\<close>

text \<open>
  \<open>ds_min\<close> holds, for a spectral group \<open>g\<close>, the arrays \<open>group_g_mineral_id\<close> and
  \<open>group_g_band_depth\<close>; reading a variable the dataset does not have raises
  \<open>KeyError\<close>.
\<close>

record dataset =
  mineral_id :: "int \<rightharpoonup> raster"
  band_depth :: "int \<rightharpoonup> raster"

text \<open>
  One row of \<open>mineral_groupings\<close>: the columns \<open>Index\<close> and \<open>Group\<close>, and the row's
  entries in the columns of \<open>mineral_names\<close>, in their order. The data frame is
  rectangular: every row has one entry for each mineral name.
\<close>

record grouping_row =
  Index :: int
  Group :: int
  weights :: "fval list"

definition table_ok :: "nat \<Rightarrow> grouping_row list \<Rightarrow> bool" where
  "table_ok M tbl = list_all (\<lambda>r. length (weights r) = M) tbl"

text \<open>
  \<open>mineral_abundance_ref\<close>: the weight columns as an array, with \<open>nan\<close> replaced by 0
  and then \<open>-1\<close> replaced by 1.
\<close>

definition resolve_ref :: "fval \<Rightarrow> fval" where
  "resolve_ref w =
     (let w1 = (if isnan w then Fin 0 else w)
      in if np_eq w1 (Fin (- 1)) then Fin 1 else w1)"

definition mineral_abundance_ref :: "grouping_row list \<Rightarrow> fval list list" where
  "mineral_abundance_ref mineral_groupings = map (\<lambda>r. map resolve_ref (weights r)) mineral_groupings"

section \<open>The abundance computation\<close>

text \<open>
  The statement in the body of the loops, for mineral column \<open>m\<close> and row \<open>r\<close> whose
  resolved weights are \<open>ref_c\<close>:
  \<^verbatim>\<open>mineral_abundance[...,_m] += (ids == Index) * band_depth * mineral_abundance_ref[_c][_m]\<close>
\<close>

definition add_row :: "dataset \<Rightarrow> nat \<Rightarrow> grouping_row \<Rightarrow> fval list \<Rightarrow> raster \<Rightarrow> error + raster" where
  "add_row ds m r ref_c acc =
     (case mineral_id ds (Group r) of
        None \<Rightarrow> Inl KeyError
      | Some ids \<Rightarrow>
          (case band_depth ds (Group r) of
             None \<Rightarrow> Inl KeyError
           | Some bd \<Rightarrow>
               (case broadcast2 (\<lambda>b v. fmul (as_float b) v) (np_eq_scalar ids (Index r)) bd of
                  Inl e \<Rightarrow> Inl e
                | Inr t \<Rightarrow> np_iadd acc (np_mul_scalar t (ref_c ! m)))))"

text \<open>The inner loop over the rows of the table, for one mineral column.\<close>

fun rows_loop ::
  "dataset \<Rightarrow> nat \<Rightarrow> (grouping_row \<times> fval list) list \<Rightarrow> raster \<Rightarrow> error + raster" where
  "rows_loop ds m [] acc = Inr acc"
| "rows_loop ds m ((r, ref_c) # rest) acc =
     (if \<not> isnan (weights r ! m)
      then (case add_row ds m r ref_c acc of
              Inl e \<Rightarrow> Inl e
            | Inr acc' \<Rightarrow> rows_loop ds m rest acc')
      else rows_loop ds m rest acc)"

text \<open>
  The outer loop over the mineral columns. \<open>mineral_abundance\<close> has shape \<open>(H, W, M)\<close>;
  it is kept as the list of its \<open>M\<close> slices \<open>mineral_abundance[..., m]\<close>, each of shape
  \<open>(H, W)\<close> and all zero at the start.
\<close>

fun minerals_loop ::
  "dataset \<Rightarrow> grouping_row list \<Rightarrow> nat \<Rightarrow> nat \<Rightarrow> nat list \<Rightarrow> error + raster list" where
  "minerals_loop ds tbl H W [] = Inr []"
| "minerals_loop ds tbl H W (m # ms) =
     (case rows_loop ds m (zip tbl (mineral_abundance_ref tbl)) (np_zeros H W) of
        Inl e \<Rightarrow> Inl e
      | Inr a \<Rightarrow>
          (case minerals_loop ds tbl H W ms of
             Inl e \<Rightarrow> Inl e
           | Inr rest \<Rightarrow> Inr (a # rest)))"

text \<open>\<open>mineral_abundance[np.isnan(mineral_abundance)] = 0\<close>\<close>

definition nan_to_zero :: "raster list \<Rightarrow> raster list" where
  "nan_to_zero ab = map (map (map clean)) ab"

text \<open>\<open>mineral_abundance[np.all(mineral_abundance == 0, axis=-1), :] = np.nan\<close>\<close>

definition all_zero :: "raster list \<Rightarrow> nat \<Rightarrow> nat \<Rightarrow> bool" where
  "all_zero ab i j = list_all (\<lambda>a. np_eq (a ! i ! j) (Fin 0)) ab"

definition mask_all_zero :: "nat \<Rightarrow> nat \<Rightarrow> raster list \<Rightarrow> raster list" where
  "mask_all_zero H W ab =
     map (\<lambda>a. tabulate2 H W (\<lambda>i j. if all_zero ab i j then NaN else a ! i ! j)) ab"

text \<open>
  The whole cell of the notebook: the shape is read from \<open>group_1_band_depth\<close>, the loops
  run, and the two clean-up statements follow.
\<close>

definition mineral_abundance ::
  "dataset \<Rightarrow> string list \<Rightarrow> grouping_row list \<Rightarrow> error + raster list" where
  "mineral_abundance ds mineral_names mineral_groupings =
     (case band_depth ds 1 of
        None \<Rightarrow> Inl KeyError
      | Some b1 \<Rightarrow>
          (case minerals_loop ds mineral_groupings (nrows b1) (ncols b1)
                  [0..<length mineral_names] of
             Inl e \<Rightarrow> Inl e
           | Inr ab \<Rightarrow> Inr (mask_all_zero (nrows b1) (ncols b1) (nan_to_zero ab))))"

text \<open>
  \<open>total_mineral_abundance = np.nansum(mineral_abundance, axis=-1)\<close>, at one cell: the
  total over the mineral columns, a \<open>nan\<close> counting as 0.
\<close>

definition total_mineral_abundance :: "raster list \<Rightarrow> nat \<Rightarrow> nat \<Rightarrow> fval" where
  "total_mineral_abundance ab i j = sum_list (map (\<lambda>a. clean (a ! i ! j)) ab)"

section \<open>The abundance computation in float64\<close>





text \<open>
  The statements of the abundance computation once more, with the rounding \<open>rnd\<close> applied
  to every sum and every product. Nothing else differs from the definitions above, which
  are these with no rounding.
\<close>

fun fadd_r :: "(real \<Rightarrow> real) \<Rightarrow> fval \<Rightarrow> fval \<Rightarrow> fval" where
  "fadd_r rnd (Fin a) (Fin b) = Fin (rnd (a + b))"
| "fadd_r rnd _ _ = NaN"

fun fmul_r :: "(real \<Rightarrow> real) \<Rightarrow> fval \<Rightarrow> fval \<Rightarrow> fval" where
  "fmul_r rnd (Fin a) (Fin b) = Fin (rnd (a * b))"
| "fmul_r rnd _ _ = NaN"

definition np_mul_scalar_r :: "(real \<Rightarrow> real) \<Rightarrow> raster \<Rightarrow> fval \<Rightarrow> raster" where
  "np_mul_scalar_r rnd a w = map (map (\<lambda>v. fmul_r rnd v w)) a"

definition np_iadd_r :: "(real \<Rightarrow> real) \<Rightarrow> raster \<Rightarrow> raster \<Rightarrow> error + raster" where
  "np_iadd_r rnd acc rhs =
     (if (nrows rhs = nrows acc \<or> nrows rhs = 1) \<and> (ncols rhs = ncols acc \<or> ncols rhs = 1)
      then Inr (tabulate2 (nrows acc) (ncols acc) (\<lambda>i j. fadd_r rnd (acc ! i ! j) (bget rhs i j)))
      else Inl ValueError)"

definition add_row_r ::
  "(real \<Rightarrow> real) \<Rightarrow> dataset \<Rightarrow> nat \<Rightarrow> grouping_row \<Rightarrow> fval list \<Rightarrow> raster \<Rightarrow> error + raster" where
  "add_row_r rnd ds m r ref_c acc =
     (case mineral_id ds (Group r) of
        None \<Rightarrow> Inl KeyError
      | Some ids \<Rightarrow>
          (case band_depth ds (Group r) of
             None \<Rightarrow> Inl KeyError
           | Some bd \<Rightarrow>
               (case broadcast2 (\<lambda>b v. fmul_r rnd (as_float b) v) (np_eq_scalar ids (Index r)) bd of
                  Inl e \<Rightarrow> Inl e
                | Inr t \<Rightarrow> np_iadd_r rnd acc (np_mul_scalar_r rnd t (ref_c ! m)))))"

fun rows_loop_r ::
  "(real \<Rightarrow> real) \<Rightarrow> dataset \<Rightarrow> nat \<Rightarrow> (grouping_row \<times> fval list) list \<Rightarrow> raster \<Rightarrow>
     error + raster" where
  "rows_loop_r rnd ds m [] acc = Inr acc"
| "rows_loop_r rnd ds m ((r, ref_c) # rest) acc =
     (if \<not> isnan (weights r ! m)
      then (case add_row_r rnd ds m r ref_c acc of
              Inl e \<Rightarrow> Inl e
            | Inr acc' \<Rightarrow> rows_loop_r rnd ds m rest acc')
      else rows_loop_r rnd ds m rest acc)"

fun minerals_loop_r ::
  "(real \<Rightarrow> real) \<Rightarrow> dataset \<Rightarrow> grouping_row list \<Rightarrow> nat \<Rightarrow> nat \<Rightarrow> nat list \<Rightarrow>
     error + raster list" where
  "minerals_loop_r rnd ds tbl H W [] = Inr []"
| "minerals_loop_r rnd ds tbl H W (m # ms) =
     (case rows_loop_r rnd ds m (zip tbl (mineral_abundance_ref tbl)) (np_zeros H W) of
        Inl e \<Rightarrow> Inl e
      | Inr a \<Rightarrow>
          (case minerals_loop_r rnd ds tbl H W ms of
             Inl e \<Rightarrow> Inl e
           | Inr rest \<Rightarrow> Inr (a # rest)))"

definition mineral_abundance_r ::
  "(real \<Rightarrow> real) \<Rightarrow> dataset \<Rightarrow> string list \<Rightarrow> grouping_row list \<Rightarrow> error + raster list" where
  "mineral_abundance_r rnd ds mineral_names mineral_groupings =
     (case band_depth ds 1 of
        None \<Rightarrow> Inl KeyError
      | Some b1 \<Rightarrow>
          (case minerals_loop_r rnd ds mineral_groupings (nrows b1) (ncols b1)
                  [0..<length mineral_names] of
             Inl e \<Rightarrow> Inl e
           | Inr ab \<Rightarrow> Inr (mask_all_zero (nrows b1) (ncols b1) (nan_to_zero ab))))"



section \<open>The grid remapper\<close>

text \<open>
  Modelled from the spec: the Grid Remapper. The notebook calls \<open>et.ortho_xr\<close> of the
  module \<open>emit_tools\<close>, which is not among the sources, so the remapper follows section
  4.1 of the specification. A cell of the index map holds the raw, 1-based pair (source
  row, source column); a raw value that is not positive marks a cell with no source. For
  each output cell: if the raw pair is invalid, or the decoded 0-based pair lies outside
  the source, every output layer is missing (\<open>nan\<close>) there; otherwise every output layer
  takes the sample of its source layer at the decoded pair.
\<close>

definition gather :: "raster \<Rightarrow> int \<times> int \<Rightarrow> fval" where
  "gather source rc =
     (case rc of
        (r1, c1) \<Rightarrow>
          if r1 \<le> 0 \<or> c1 \<le> 0 then NaN
          else (let r = nat (r1 - 1); c = nat (c1 - 1)
                in if r < nrows source \<and> c < ncols source then source ! r ! c else NaN))"

text \<open>
  Modelled from the spec: \<open>remap(source_layers, index_map)\<close> of section 4.1, the gather
  above at every cell of the index map, for every source layer.
\<close>

definition remap :: "raster list \<Rightarrow> (int \<times> int) list list \<Rightarrow> raster list" where
  "remap source_layers index_map = map (\<lambda>source. map (map (gather source)) index_map) source_layers"

text \<open>The identity index map of a source of shape \<open>(R, C)\<close>.\<close>

definition identity_map :: "nat \<Rightarrow> nat \<Rightarrow> (int \<times> int) list list" where
  "identity_map R C = tabulate2 R C (\<lambda>i j. (int i + 1, int j + 1))"

section \<open>What the loops compute, cell by cell\<close>

text \<open>
  The definitions of this section are not code of the notebook: they describe, for one
  row and one cell, what the loops above add, and are what the theorems are stated with.
  A row takes part in mineral column \<open>m\<close> when its entry there is not \<open>nan\<close>
  (the guard of the inner loop).
\<close>

definition active :: "nat \<Rightarrow> grouping_row \<Rightarrow> bool" where
  "active m r = (\<not> isnan (weights r ! m))"

text \<open>
  The array on the right of \<open>+=\<close> for row \<open>r\<close> and column \<open>m\<close>, or the error its
  evaluation raises; \<open>row_fits\<close> says that it exists and broadcasts to the shape
  \<open>(h, w)\<close> of the accumulator, and \<open>rhs_cell\<close> is what the statement then adds at
  the cell \<open>(i, j)\<close> (0 for a row that takes no part).
\<close>

definition row_rhs :: "dataset \<Rightarrow> nat \<Rightarrow> grouping_row \<Rightarrow> error + raster" where
  "row_rhs ds m r =
     (case mineral_id ds (Group r) of
        None \<Rightarrow> Inl KeyError
      | Some ids \<Rightarrow>
          (case band_depth ds (Group r) of
             None \<Rightarrow> Inl KeyError
           | Some bd \<Rightarrow>
               (case broadcast2 (\<lambda>b v. fmul (as_float b) v) (np_eq_scalar ids (Index r)) bd of
                  Inl e \<Rightarrow> Inl e
                | Inr t \<Rightarrow> Inr (np_mul_scalar t (map resolve_ref (weights r) ! m)))))"

definition row_fits :: "dataset \<Rightarrow> nat \<Rightarrow> nat \<Rightarrow> nat \<Rightarrow> grouping_row \<Rightarrow> bool" where
  "row_fits ds m h w r =
     (case row_rhs ds m r of
        Inl e \<Rightarrow> False
      | Inr rhs \<Rightarrow> (nrows rhs = h \<or> nrows rhs = 1) \<and> (ncols rhs = w \<or> ncols rhs = 1))"

definition rhs_cell :: "dataset \<Rightarrow> nat \<Rightarrow> grouping_row \<Rightarrow> nat \<Rightarrow> nat \<Rightarrow> fval" where
  "rhs_cell ds m r i j =
     (if active m r then (case row_rhs ds m r of Inl e \<Rightarrow> 0 | Inr rhs \<Rightarrow> bget rhs i j) else 0)"

text \<open>
  The shape to which the two layers of group \<open>g\<close> broadcast, when both are in the
  dataset and their shapes are compatible; \<open>group_fits\<close> says that this shape
  broadcasts to \<open>(H, W)\<close>.
\<close>

definition pair_shape :: "dataset \<Rightarrow> int \<Rightarrow> (nat \<times> nat) option" where
  "pair_shape ds g =
     (case mineral_id ds g of
        None \<Rightarrow> None
      | Some ids \<Rightarrow>
          (case band_depth ds g of
             None \<Rightarrow> None
           | Some bd \<Rightarrow>
               (case broadcast_dim (nrows ids) (nrows bd) of
                  None \<Rightarrow> None
                | Some h \<Rightarrow>
                    (case broadcast_dim (ncols ids) (ncols bd) of
                       None \<Rightarrow> None
                     | Some w \<Rightarrow> Some (h, w)))))"

definition group_fits :: "dataset \<Rightarrow> nat \<Rightarrow> nat \<Rightarrow> int \<Rightarrow> bool" where
  "group_fits ds H W g =
     (case pair_shape ds g of
        None \<Rightarrow> False
      | Some (h, w) \<Rightarrow> (h = H \<or> h = 1) \<and> (w = W \<or> w = 1))"

text \<open>The sum, over the rows of the table, of what each adds at the cell.\<close>

definition acc_cell :: "dataset \<Rightarrow> grouping_row list \<Rightarrow> nat \<Rightarrow> nat \<Rightarrow> nat \<Rightarrow> fval" where
  "acc_cell ds tbl m i j = sum_list (map (\<lambda>r. rhs_cell ds m r i j) tbl)"

text \<open>
  Every layer of the dataset has the shape \<open>(H, W)\<close>, as the variables of one
  dataset on the same dimensions have.
\<close>

definition common_shape :: "nat \<Rightarrow> nat \<Rightarrow> dataset \<Rightarrow> bool" where
  "common_shape H W ds =
     ((\<forall>g a. mineral_id ds g = Some a \<longrightarrow> rect H W a) \<and>
      (\<forall>g a. band_depth ds g = Some a \<longrightarrow> rect H W a))"






section \<open>Example inputs\<close>

text \<open>
  A scene of one row and two columns with two spectral groups, and a grouping table of
  two rows for the mineral columns \<open>A\<close> and \<open>B\<close>. The first cell holds mineral 5
  (band depth 3) in group 1 and mineral 7 (band depth 1/2) in group 2; the second cell
  holds no mineral. The second row of the table has the marker \<open>-1\<close> in column \<open>A\<close>.
\<close>

definition example_ds :: dataset where
  "example_ds =
     \<lparr> mineral_id = [1 \<mapsto> [[Fin 5, Fin 0]], 2 \<mapsto> [[Fin 7, Fin 0]]],
       band_depth = [1 \<mapsto> [[Fin 3, Fin 0]], 2 \<mapsto> [[Fin (1/2), Fin 0]]] \<rparr>"

definition example_tbl :: "grouping_row list" where
  "example_tbl =
     [\<lparr>Index = 5, Group = 1, weights = [Fin 2, NaN]\<rparr>,
      \<lparr>Index = 7, Group = 2, weights = [Fin (- 1), Fin 4]\<rparr>]"

text \<open>
  A scene in which the band depth of group 2 is \<open>nan\<close> everywhere and the second cell
  is \<open>nan\<close> in every layer, as a fill cell is after orthorectification.
\<close>

definition nan_ds :: dataset where
  "nan_ds =
     \<lparr> mineral_id = [1 \<mapsto> [[Fin 5, NaN]], 2 \<mapsto> [[Fin 7, NaN]]],
       band_depth = [1 \<mapsto> [[Fin 3, NaN]], 2 \<mapsto> [[NaN, NaN]]] \<rparr>"

definition nan_tbl :: "grouping_row list" where
  "nan_tbl =
     [\<lparr>Index = 5, Group = 1, weights = [NaN, Fin 2]\<rparr>,
      \<lparr>Index = 7, Group = 2, weights = [Fin 1, NaN]\<rparr>]"

text \<open>
  A scene of one cell in which mineral 5 of group 1 has band depth \<open>-3\<close> and mineral 7 of
  group 2 has band depth 3, with a table that sends the one to column \<open>A\<close> and the other
  to column \<open>B\<close>.
\<close>

definition signed_ds :: dataset where
  "signed_ds =
     \<lparr> mineral_id = [1 \<mapsto> [[Fin 5]], 2 \<mapsto> [[Fin 7]]],
       band_depth = [1 \<mapsto> [[Fin (- 3)]], 2 \<mapsto> [[Fin 3]]] \<rparr>"

definition signed_tbl :: "grouping_row list" where
  "signed_tbl =
     [\<lparr>Index = 5, Group = 1, weights = [Fin 1, NaN]\<rparr>,
      \<lparr>Index = 7, Group = 2, weights = [NaN, Fin 1]\<rparr>]"

text \<open>A scene with one spectral group, given by its two layers.\<close>

definition one_group :: "raster \<Rightarrow> raster \<Rightarrow> dataset" where
  "one_group ids bd = \<lparr> mineral_id = [1 \<mapsto> ids], band_depth = [1 \<mapsto> bd] \<rparr>"



section \<open>Arrays: basic facts\<close>

lemma nth_tabulate2: "i < H \<Longrightarrow> j < W \<Longrightarrow> tabulate2 H W f ! i ! j = f i j"
  by (simp add: tabulate2_def)

lemma nrows_tabulate2: "nrows (tabulate2 H W f) = H"
  by (simp add: tabulate2_def nrows_def)

lemma ncols_tabulate2: "ncols (tabulate2 H W f) = (if H = 0 then 0 else W)"
  by (cases H) (simp_all add: tabulate2_def ncols_def upt_conv_Cons del: upt_Suc split: list.splits)

lemma ncols_nrows_0: "nrows a = 0 \<Longrightarrow> ncols a = 0"
  by (simp add: nrows_def ncols_def)

lemma tabulate2_cong:
  "(\<And>i j. i < H \<Longrightarrow> j < W \<Longrightarrow> f i j = g i j) \<Longrightarrow> tabulate2 H W f = tabulate2 H W g"
  by (simp add: tabulate2_def)

lemma rect_tabulate2: "rect H W (tabulate2 H W f)"
  by (simp add: rect_def tabulate2_def list_all_iff)

lemma tabulate2_nth: "rect H W a \<Longrightarrow> tabulate2 H W (\<lambda>i j. a ! i ! j) = a"
  unfolding rect_def tabulate2_def list_all_iff
  by (rule nth_equalityI) (auto simp: map_nth intro!: nth_equalityI)

lemma rect_np_zeros: "rect H W (np_zeros H W)"
  by (simp add: rect_def np_zeros_def list_all_iff)

lemma nth_np_zeros: "i < H \<Longrightarrow> j < W \<Longrightarrow> np_zeros H W ! i ! j = 0"
  by (simp add: np_zeros_def zero_fval_def)

lemma nrows_np_zeros: "nrows (np_zeros H W) = H"
  by (simp add: np_zeros_def nrows_def)

lemma ncols_np_zeros: "ncols (np_zeros H W) = (if H = 0 then 0 else W)"
  by (cases H) (simp_all add: np_zeros_def ncols_def)

section \<open>The loops: when they return, and what they return\<close>

lemma add_row_row_rhs:
  "add_row ds m r (map resolve_ref (weights r)) acc =
     (case row_rhs ds m r of Inl e \<Rightarrow> Inl e | Inr rhs \<Rightarrow> np_iadd acc rhs)"
  by (simp add: add_row_def row_rhs_def split: option.splits sum.splits)

lemma rows_loop_Inr_iff:
  assumes "rect (nrows acc) (ncols acc) acc"
  shows "rows_loop ds m (map (\<lambda>r. (r, map resolve_ref (weights r))) tbl) acc = Inr acc' \<longleftrightarrow>
           (\<forall>r\<in>set tbl. active m r \<longrightarrow> row_fits ds m (nrows acc) (ncols acc) r) \<and>
           acc' = tabulate2 (nrows acc) (ncols acc)
                    (\<lambda>i j. acc ! i ! j + sum_list (map (\<lambda>r. rhs_cell ds m r i j) tbl))"
  using assms
proof (induction tbl arbitrary: acc)
  case Nil
  then show ?case by (auto simp: tabulate2_nth)
next
  case (Cons r tbl)
  show ?case
  proof (cases "active m r")
    case False
    then have "rows_loop ds m (map (\<lambda>r. (r, map resolve_ref (weights r))) (r # tbl)) acc
               = rows_loop ds m (map (\<lambda>r. (r, map resolve_ref (weights r))) tbl) acc"
      by (simp add: active_def)
    moreover have "\<And>i j. rhs_cell ds m r i j = 0" using False by (simp add: rhs_cell_def)
    ultimately show ?thesis using Cons.IH [OF Cons.prems] False by simp
  next
    case True
    show ?thesis
    proof (cases "row_fits ds m (nrows acc) (ncols acc) r")
      case False
      with True have "rows_loop ds m (map (\<lambda>r. (r, map resolve_ref (weights r))) (r # tbl)) acc
               = Inl (case row_rhs ds m r of Inl e \<Rightarrow> e | Inr _ \<Rightarrow> ValueError)"
        by (auto simp: active_def add_row_row_rhs row_fits_def np_iadd_def split: sum.splits)
      with False True show ?thesis by auto
    next
      case fits: True
      then obtain rhs where rhs: "row_rhs ds m r = Inr rhs"
        and sh: "(nrows rhs = nrows acc \<or> nrows rhs = 1) \<and> (ncols rhs = ncols acc \<or> ncols rhs = 1)"
        by (auto simp: row_fits_def split: sum.splits)
      define acc1 where "acc1 = tabulate2 (nrows acc) (ncols acc) (\<lambda>i j. fadd (acc ! i ! j) (bget rhs i j))"
      have step: "rows_loop ds m (map (\<lambda>r. (r, map resolve_ref (weights r))) (r # tbl)) acc
               = rows_loop ds m (map (\<lambda>r. (r, map resolve_ref (weights r))) tbl) acc1"
        using True rhs sh by (simp add: active_def add_row_row_rhs np_iadd_def acc1_def)
      have n1: "nrows acc1 = nrows acc" by (simp add: acc1_def nrows_tabulate2)
      have c1: "ncols acc1 = ncols acc" by (simp add: acc1_def ncols_tabulate2 ncols_nrows_0)
      have r1: "rect (nrows acc1) (ncols acc1) acc1"
        unfolding n1 c1 unfolding acc1_def by (rule rect_tabulate2)
      have cell: "\<And>i j. rhs_cell ds m r i j = bget rhs i j"
        using True rhs by (simp add: rhs_cell_def)
      have eq: "tabulate2 (nrows acc) (ncols acc)
             (\<lambda>i j. acc1 ! i ! j + sum_list (map (\<lambda>r. rhs_cell ds m r i j) tbl))
           = tabulate2 (nrows acc) (ncols acc)
             (\<lambda>i j. acc ! i ! j + sum_list (map (\<lambda>r. rhs_cell ds m r i j) (r # tbl)))"
        by (rule tabulate2_cong) (simp add: acc1_def nth_tabulate2 cell plus_fval_def [symmetric] add.assoc)
      show ?thesis
        unfolding step using Cons.IH [OF r1] fits True by (simp only: n1 c1 eq) auto
    qed
  qed
qed

lemma nrows_map_map: "nrows (map (map f) a) = nrows a"
  by (simp add: nrows_def)

lemma ncols_map_map: "ncols (map (map f) a) = ncols a"
  by (simp add: ncols_def split: list.splits)

lemma broadcast_dim_0: "broadcast_dim a b = Some 0 \<Longrightarrow> a = 0 \<or> b = 0"
  by (auto simp: broadcast_dim_def split: if_splits)

lemma broadcast_dim_0_left: "broadcast_dim 0 b = Some w \<Longrightarrow> w = 0"
  by (auto simp: broadcast_dim_def split: if_splits)

lemma broadcast_dim_0_right: "broadcast_dim a 0 = Some w \<Longrightarrow> w = 0"
  by (auto simp: broadcast_dim_def split: if_splits)

lemma row_fits_group_fits: "row_fits ds m H W r = group_fits ds H W (Group r)"
proof (cases "mineral_id ds (Group r)")
  case None
  then show ?thesis by (simp add: row_fits_def row_rhs_def group_fits_def pair_shape_def)
next
  case (Some ids)
  note ids = this
  show ?thesis
  proof (cases "band_depth ds (Group r)")
    case None
    then show ?thesis using ids by (simp add: row_fits_def row_rhs_def group_fits_def pair_shape_def)
  next
    case (Some bd)
    note bd = this
    show ?thesis
    proof (cases "broadcast_dim (nrows ids) (nrows bd)")
      case None
      then show ?thesis using ids bd
        by (simp add: row_fits_def row_rhs_def group_fits_def pair_shape_def broadcast2_def
            np_eq_scalar_def nrows_map_map)
    next
      case (Some h)
      note h = this
      show ?thesis
      proof (cases "broadcast_dim (ncols ids) (ncols bd)")
        case None
        then show ?thesis using ids bd h
          by (simp add: row_fits_def row_rhs_def group_fits_def pair_shape_def broadcast2_def
              np_eq_scalar_def nrows_map_map ncols_map_map)
      next
        case (Some w)
        have w0: "h = 0 \<Longrightarrow> w = 0"
          using h Some broadcast_dim_0 [of "nrows ids" "nrows bd"]
            ncols_nrows_0 [of ids] ncols_nrows_0 [of bd]
            broadcast_dim_0_left [of "ncols bd" w] broadcast_dim_0_right [of "ncols ids" w]
          by auto
        show ?thesis using ids bd h Some w0
          by (auto simp add: row_fits_def row_rhs_def group_fits_def pair_shape_def broadcast2_def
              np_eq_scalar_def np_mul_scalar_def nrows_map_map ncols_map_map
              nrows_tabulate2 ncols_tabulate2)
      qed
    qed
  qed
qed

lemma zip_ref: "zip tbl (mineral_abundance_ref tbl) = map (\<lambda>r. (r, map resolve_ref (weights r))) tbl"
  by (induction tbl) (simp_all add: mineral_abundance_ref_def)

lemma minerals_loop_Inr_iff:
  assumes "H = 0 \<longrightarrow> W = 0"
  shows "minerals_loop ds tbl H W ms = Inr ab \<longleftrightarrow>
           (\<forall>m\<in>set ms. \<forall>r\<in>set tbl. active m r \<longrightarrow> group_fits ds H W (Group r)) \<and>
           ab = map (\<lambda>m. tabulate2 H W (acc_cell ds tbl m)) ms"
proof (induction ms arbitrary: ab)
  case Nil
  then show ?case by auto
next
  case (Cons m ms)
  have sh: "nrows (np_zeros H W) = H" "ncols (np_zeros H W) = W"
    using assms by (auto simp: nrows_np_zeros ncols_np_zeros)
  have rz: "rect (nrows (np_zeros H W)) (ncols (np_zeros H W)) (np_zeros H W)"
    unfolding sh by (rule rect_np_zeros)
  have eq: "tabulate2 H W (\<lambda>i j. np_zeros H W ! i ! j + sum_list (map (\<lambda>r. rhs_cell ds m r i j) tbl))
          = tabulate2 H W (acc_cell ds tbl m)"
    by (rule tabulate2_cong) (simp add: nth_np_zeros acc_cell_def)
  have row: "\<And>a. rows_loop ds m (zip tbl (mineral_abundance_ref tbl)) (np_zeros H W) = Inr a \<longleftrightarrow>
          (\<forall>r\<in>set tbl. active m r \<longrightarrow> group_fits ds H W (Group r)) \<and>
          a = tabulate2 H W (acc_cell ds tbl m)"
    unfolding zip_ref rows_loop_Inr_iff [OF rz] sh eq row_fits_group_fits ..
  show ?case
  proof (cases "rows_loop ds m (zip tbl (mineral_abundance_ref tbl)) (np_zeros H W)")
    case (Inl e)
    then have "\<not> (\<forall>r\<in>set tbl. active m r \<longrightarrow> group_fits ds H W (Group r))"
      using row by auto
    then show ?thesis using Inl by auto
  next
    case (Inr a)
    then have a: "(\<forall>r\<in>set tbl. active m r \<longrightarrow> group_fits ds H W (Group r))"
      "a = tabulate2 H W (acc_cell ds tbl m)"
      using row by auto
    show ?thesis
    proof (cases "minerals_loop ds tbl H W ms")
      case (Inl e)
      then have "\<not> (\<forall>m\<in>set ms. \<forall>r\<in>set tbl. active m r \<longrightarrow> group_fits ds H W (Group r))"
        using Cons.IH by auto
      then show ?thesis using Inl Inr by auto
    next
      case rest: (Inr rest)
      then show ?thesis using Inr a Cons.IH [of rest] by auto
    qed
  qed
qed

lemma mineral_abundance_Inr_iff:
  "mineral_abundance ds names tbl = Inr out \<longleftrightarrow>
     (\<exists>b1. band_depth ds 1 = Some b1 \<and>
        (\<forall>m<length names. \<forall>r\<in>set tbl. active m r \<longrightarrow>
            group_fits ds (nrows b1) (ncols b1) (Group r)) \<and>
        out = mask_all_zero (nrows b1) (ncols b1)
                (nan_to_zero (map (\<lambda>m. tabulate2 (nrows b1) (ncols b1) (acc_cell ds tbl m))
                   [0..<length names])))"
proof (cases "band_depth ds 1")
  case None
  then show ?thesis by (simp add: mineral_abundance_def)
next
  case (Some b1)
  have z: "nrows b1 = 0 \<longrightarrow> ncols b1 = 0" by (simp add: ncols_nrows_0)
  note ml = minerals_loop_Inr_iff [OF z, of ds tbl "[0..<length names]"]
  show ?thesis
  proof (cases "minerals_loop ds tbl (nrows b1) (ncols b1) [0..<length names]")
    case (Inl e)
    then have "\<not> (\<forall>m\<in>set [0..<length names]. \<forall>r\<in>set tbl. active m r \<longrightarrow>
            group_fits ds (nrows b1) (ncols b1) (Group r))"
      using ml by auto
    then show ?thesis using Some Inl by (auto simp: mineral_abundance_def)
  next
    case (Inr ab)
    then have "(\<forall>m\<in>set [0..<length names]. \<forall>r\<in>set tbl. active m r \<longrightarrow>
            group_fits ds (nrows b1) (ncols b1) (Group r))"
      and "ab = map (\<lambda>m. tabulate2 (nrows b1) (ncols b1) (acc_cell ds tbl m)) [0..<length names]"
      using ml [of ab] by auto
    then show ?thesis using Some Inr by (auto simp: mineral_abundance_def)
  qed
qed


section \<open>The output, cell by cell\<close>

lemma map_map_tabulate2: "map (map g) (tabulate2 H W f) = tabulate2 H W (\<lambda>i j. g (f i j))"
  by (simp add: tabulate2_def)

lemma nan_to_zero_tabulate2:
  "nan_to_zero (map (\<lambda>m. tabulate2 H W (f m)) ms) = map (\<lambda>m. tabulate2 H W (\<lambda>i j. clean (f m i j))) ms"
  by (simp add: nan_to_zero_def map_map_tabulate2 clean_def [abs_def] comp_def)

lemma all_zero_tabulate2:
  "i < H \<Longrightarrow> j < W \<Longrightarrow>
   all_zero (map (\<lambda>m. tabulate2 H W (f m)) [0..<M]) i j = (\<forall>m<M. np_eq (f m i j) (Fin 0))"
  by (auto simp: all_zero_def list_all_iff nth_tabulate2)

lemma mask_all_zero_nth:
  assumes "m < M" "i < H" "j < W"
  shows "mask_all_zero H W (map (\<lambda>m. tabulate2 H W (f m)) [0..<M]) ! m ! i ! j =
           (if \<forall>m'<M. np_eq (f m' i j) (Fin 0) then NaN else f m i j)"
  using assms by (auto simp add: mask_all_zero_def nth_tabulate2 all_zero_tabulate2)

lemma mineral_abundance_cell:
  assumes "mineral_abundance ds names tbl = Inr out"
    and "band_depth ds 1 = Some b1"
    and "m < length names" "i < nrows b1" "j < ncols b1"
  shows "out ! m ! i ! j =
           (if \<forall>m'<length names. np_eq (clean (acc_cell ds tbl m' i j)) (Fin 0) then NaN
            else clean (acc_cell ds tbl m i j))"
proof -
  from assms(1,2) have "out = mask_all_zero (nrows b1) (ncols b1)
                (nan_to_zero (map (\<lambda>m. tabulate2 (nrows b1) (ncols b1) (acc_cell ds tbl m))
                   [0..<length names]))"
    unfolding mineral_abundance_Inr_iff by auto
  then show ?thesis
    using assms(3-5) by (simp only: nan_to_zero_tabulate2 mask_all_zero_nth)
qed

lemma minerals_loop_cell:
  assumes "minerals_loop ds tbl H W [0..<M] = Inr acc" and "H = 0 \<longrightarrow> W = 0"
    and "m < M" "i < H" "j < W"
  shows "acc ! m ! i ! j = acc_cell ds tbl m i j"
  using assms by (simp add: minerals_loop_Inr_iff nth_tabulate2)

section \<open>Layers of a common shape\<close>

lemma bget_in_range: "i < nrows a \<Longrightarrow> j < ncols a \<Longrightarrow> bget a i j = a ! i ! j"
  by (auto simp: bget_def)

lemma rect_nrows: "rect H W a \<Longrightarrow> nrows a = H"
  by (simp add: rect_def nrows_def)

lemma rect_ncols: "rect H W a \<Longrightarrow> 0 < H \<Longrightarrow> ncols a = W"
  by (cases a) (auto simp: rect_def ncols_def)

lemma rect_nth_length: "rect H W a \<Longrightarrow> i < H \<Longrightarrow> length (a ! i) = W"
  by (auto simp: rect_def list_all_length)

lemma broadcast_dim_same: "broadcast_dim a a = Some a"
  by (simp add: broadcast_dim_def)

lemma row_rhs_common:
  assumes ids: "mineral_id ds (Group r) = Some ids" and bd: "band_depth ds (Group r) = Some bd"
    and rids: "rect H W ids" and rbd: "rect H W bd" and H: "0 < H"
  shows "row_rhs ds m r =
           Inr (tabulate2 H W (\<lambda>i j.
                  fmul (fmul (as_float (np_eq (ids ! i ! j) (Fin (of_int (Index r))))) (bd ! i ! j))
                       (map resolve_ref (weights r) ! m)))"
proof -
  have sh: "nrows ids = H" "ncols ids = W" "nrows bd = H" "ncols bd = W"
    using rids rbd H by (simp_all add: rect_nrows rect_ncols)
  have eqs: "\<And>i j. i < H \<Longrightarrow> j < W \<Longrightarrow>
      bget (np_eq_scalar ids (Index r)) i j = np_eq (ids ! i ! j) (Fin (of_int (Index r)))"
  proof -
    fix i j assume ij: "i < H" "j < W"
    have "bget (np_eq_scalar ids (Index r)) i j = np_eq_scalar ids (Index r) ! i ! j"
      using ij sh by (simp add: bget_in_range np_eq_scalar_def nrows_map_map ncols_map_map)
    also have "\<dots> = np_eq (ids ! i ! j) (Fin (of_int (Index r)))"
      using ij rids rect_nth_length [OF rids ij(1)] by (simp add: np_eq_scalar_def rect_def)
    finally show "bget (np_eq_scalar ids (Index r)) i j = np_eq (ids ! i ! j) (Fin (of_int (Index r)))" .
  qed
  have t: "broadcast2 (\<lambda>b v. fmul (as_float b) v) (np_eq_scalar ids (Index r)) bd
         = Inr (tabulate2 H W (\<lambda>i j. fmul (as_float (np_eq (ids ! i ! j) (Fin (of_int (Index r))))) (bd ! i ! j)))"
    unfolding broadcast2_def np_eq_scalar_def nrows_map_map ncols_map_map sh broadcast_dim_same
    unfolding np_eq_scalar_def [symmetric]
    by (simp, rule tabulate2_cong) (simp add: eqs bget_in_range sh)
  show ?thesis
    by (simp add: row_rhs_def ids bd t np_mul_scalar_def map_map_tabulate2)
qed

lemma rhs_cell_common:
  assumes "mineral_id ds (Group r) = Some ids" and "band_depth ds (Group r) = Some bd"
    and "rect H W ids" and "rect H W bd" and "i < H" and "j < W"
    and "active m r" and "m < length (weights r)"
  shows "rhs_cell ds m r i j =
           fmul (fmul (as_float (np_eq (ids ! i ! j) (Fin (of_int (Index r))))) (bd ! i ! j))
                (resolve_ref (weights r ! m))"
proof -
  have H: "0 < H" using assms(5) by simp
  show ?thesis
    unfolding rhs_cell_def row_rhs_common [OF assms(1-4) H]
    using assms(5-8)
    by (simp add: bget_in_range nrows_tabulate2 ncols_tabulate2 nth_tabulate2)
qed

lemma group_fits_layers:
  "group_fits ds H W g \<Longrightarrow> \<exists>ids bd. mineral_id ds g = Some ids \<and> band_depth ds g = Some bd"
  by (auto simp: group_fits_def pair_shape_def split: option.splits)



lemma np_eq_clean_zero: "np_eq (clean v) (Fin 0) \<longleftrightarrow> isnan v \<or> v = Fin 0"
  by (cases v) (simp_all add: clean_def)

section \<open>The aggregation as a weighted sum (C1)\<close>




section \<open>The clean-up of \<open>nan\<close> comes before the mask (C8)\<close>

text \<open>
  C8. Let the loops over all rows end with the arrays \<open>acc\<close>. Then the cell of the notebook
  returns, and its output at a cell is: \<open>nan\<close> when every mineral column of \<open>acc\<close> is
  \<open>nan\<close> or 0 there; otherwise 0 where \<open>acc\<close> is \<open>nan\<close>, and the value of \<open>acc\<close>
  where it is a number. So every \<open>nan\<close> the loops accumulated is replaced by 0, and the
  replacement is made before the all-zero cells are marked: a \<open>nan\<close> counts as a 0 for
  the mask.
\<close>

theorem nan_cleanup_precedes_mask:
  assumes "band_depth ds 1 = Some b1"
    and "minerals_loop ds tbl (nrows b1) (ncols b1) [0..<length mineral_names] = Inr acc"
    and "m < length mineral_names" and "i < nrows b1" and "j < ncols b1"
  shows "\<exists>out. mineral_abundance ds mineral_names tbl = Inr out \<and>
           out ! m ! i ! j =
             (if \<forall>m'<length mineral_names. isnan (acc ! m' ! i ! j) \<or> acc ! m' ! i ! j = Fin 0
              then NaN
              else if isnan (acc ! m ! i ! j) then Fin 0 else acc ! m ! i ! j)"
proof -
  have z: "nrows b1 = 0 \<longrightarrow> ncols b1 = 0" by (simp add: ncols_nrows_0)
  define out where "out = mask_all_zero (nrows b1) (ncols b1) (nan_to_zero acc)"
  have run: "mineral_abundance ds mineral_names tbl = Inr out"
    using assms(1,2) by (simp add: mineral_abundance_def out_def)
  have acc: "acc ! m' ! i ! j = acc_cell ds tbl m' i j" if "m' < length mineral_names" for m'
    using minerals_loop_cell [OF assms(2) z that assms(4,5)] .
  have "out ! m ! i ! j =
           (if \<forall>m'<length mineral_names. np_eq (clean (acc_cell ds tbl m' i j)) (Fin 0) then NaN
            else clean (acc_cell ds tbl m i j))"
    using mineral_abundance_cell [OF run assms(1,3,4,5)] .
  moreover have "(\<forall>m'<length mineral_names. np_eq (clean (acc_cell ds tbl m' i j)) (Fin 0)) \<longleftrightarrow>
      (\<forall>m'<length mineral_names. isnan (acc ! m' ! i ! j) \<or> acc ! m' ! i ! j = Fin 0)"
    using acc by (simp add: np_eq_clean_zero)
  moreover have "clean (acc_cell ds tbl m i j) =
      (if isnan (acc ! m ! i ! j) then Fin 0 else acc ! m ! i ! j)"
    using acc [OF assms(3)] by (simp add: clean_def)
  ultimately have "out ! m ! i ! j =
             (if \<forall>m'<length mineral_names. isnan (acc ! m' ! i ! j) \<or> acc ! m' ! i ! j = Fin 0
              then NaN
              else if isnan (acc ! m ! i ! j) then Fin 0 else acc ! m ! i ! j)"
    by (simp only:)
  with run show ?thesis by blast
qed

text \<open>
  In the scene above, column \<open>A\<close> accumulates \<open>nan\<close> in both cells and column \<open>B\<close>
  accumulates 6 and \<open>nan\<close>. The output has 0 for \<open>A\<close> in the first cell, next to the
  6 of \<open>B\<close>, and the second cell is masked.
\<close>

theorem nan_cleanup_precedes_mask_witness:
  "minerals_loop nan_ds nan_tbl 1 2 [0..<2] = Inr [[[NaN, NaN]], [[Fin 6, NaN]]] \<and>
   mineral_abundance nan_ds [''A'', ''B''] nan_tbl = Inr [[[Fin 0, NaN]], [[Fin 6, NaN]]]"
proof -
  have b1: "band_depth nan_ds 1 = Some [[Fin 3, NaN]]" by (simp add: nan_ds_def)
  have loops: "minerals_loop nan_ds nan_tbl 1 2 [0..<2] = Inr [[[NaN, NaN]], [[Fin 6, NaN]]]"
    by code_simp
  have loops': "minerals_loop nan_ds nan_tbl (nrows [[Fin 3, NaN]]) (ncols [[Fin 3, NaN]])
                  [0..<length [''A'', ''B'']] = Inr [[[NaN, NaN]], [[Fin 6, NaN]]]"
    by code_simp
  have run: "mineral_abundance nan_ds [''A'', ''B''] nan_tbl = Inr [[[Fin 0, NaN]], [[Fin 6, NaN]]]"
    by code_simp
  have "\<exists>out. mineral_abundance nan_ds [''A'', ''B''] nan_tbl = Inr out \<and> out ! 0 ! 0 ! 0 = Fin 0"
    using nan_cleanup_precedes_mask [OF b1 loops', of 0 0 0]
    by (simp add: nrows_def ncols_def All_less_Suc)
  then show ?thesis using loops run by simp
qed

section \<open>Cells with no band depth in any group (C10)\<close>

lemma acc_cell_nan:
  assumes cs: "common_shape H W ds" and ij: "i < H" "j < W"
    and nan: "\<forall>g bd. band_depth ds g = Some bd \<longrightarrow> isnan (bd ! i ! j)"
    and ok: "\<forall>r\<in>set tbl. m < length (weights r) \<and> (active m r \<longrightarrow> group_fits ds H' W' (Group r))"
  shows "(\<forall>r\<in>set tbl. active m r \<longrightarrow> rhs_cell ds m r i j = NaN) \<and>
         acc_cell ds tbl m i j = (if \<exists>r\<in>set tbl. active m r then NaN else Fin 0)"
  using ok
proof (induction tbl)
  case Nil
  then show ?case by (simp add: acc_cell_def zero_fval_def)
next
  case (Cons r tbl)
  then have IH: "(\<forall>r\<in>set tbl. active m r \<longrightarrow> rhs_cell ds m r i j = NaN)"
    "acc_cell ds tbl m i j = (if \<exists>r\<in>set tbl. active m r then NaN else Fin 0)" by simp_all
  have split: "acc_cell ds (r # tbl) m i j = rhs_cell ds m r i j + acc_cell ds tbl m i j"
    by (simp add: acc_cell_def)
  show ?case
  proof (cases "active m r")
    case False
    then have "rhs_cell ds m r i j = 0" by (simp add: rhs_cell_def)
    then show ?thesis unfolding split using IH False by simp
  next
    case True
    with Cons.prems obtain ids bd where l: "mineral_id ds (Group r) = Some ids"
      "band_depth ds (Group r) = Some bd"
      using group_fits_layers by fastforce
    have r: "rect H W ids" "rect H W bd" using cs l by (auto simp: common_shape_def)
    have m: "m < length (weights r)" using Cons.prems by simp
    have "isnan (bd ! i ! j)" using nan l(2) by blast
    then have x: "bd ! i ! j = NaN" by (cases "bd ! i ! j") auto
    have c: "rhs_cell ds m r i j = NaN"
      unfolding rhs_cell_common [OF l r ij True m] x by (simp add: as_float_def)
    show ?thesis unfolding split c using IH True c by (auto simp: plus_fval_def)
  qed
qed

text \<open>
  C10. Let every layer have the common shape \<open>(H, W)\<close>, let the aggregation succeed, and
  take a cell at which the band depth of every spectral group is \<open>nan\<close>. Then what each
  row that takes part in a mineral column adds at the cell is \<open>nan\<close>; the loops leave
  \<open>nan\<close> there in a column some row takes part in and 0 in the others; and the output is
  \<open>nan\<close> (missing) at the cell in every mineral column.
\<close>

theorem nan_magnitude_cell_missing:
  assumes "common_shape H W ds" and "table_ok (length mineral_names) tbl"
    and "mineral_abundance ds mineral_names tbl = Inr out"
    and "m < length mineral_names" and "i < H" and "j < W"
    and "\<forall>g bd. band_depth ds g = Some bd \<longrightarrow> isnan (bd ! i ! j)"
  shows "(\<forall>r\<in>set tbl. active m r \<longrightarrow> rhs_cell ds m r i j = NaN) \<and>
         (\<exists>acc. minerals_loop ds tbl H W [0..<length mineral_names] = Inr acc \<and>
                acc ! m ! i ! j = (if \<exists>r\<in>set tbl. active m r then NaN else Fin 0)) \<and>
         out ! m ! i ! j = NaN"
proof -
  from assms(3) obtain b1 where b1: "band_depth ds 1 = Some b1"
    and fits: "\<forall>m<length mineral_names. \<forall>r\<in>set tbl. active m r \<longrightarrow>
            group_fits ds (nrows b1) (ncols b1) (Group r)"
    unfolding mineral_abundance_Inr_iff by auto
  have rb: "rect H W b1" using assms(1) b1 by (auto simp: common_shape_def)
  have sh: "nrows b1 = H" "ncols b1 = W"
    using rb assms(5) by (simp_all add: rect_nrows rect_ncols)
  have z: "H = 0 \<longrightarrow> W = 0" using assms(5) by simp
  have cell: "(\<forall>r\<in>set tbl. active m' r \<longrightarrow> rhs_cell ds m' r i j = NaN) \<and>
         acc_cell ds tbl m' i j = (if \<exists>r\<in>set tbl. active m' r then NaN else Fin 0)"
    if "m' < length mineral_names" for m'
  proof (rule acc_cell_nan [OF assms(1,5,6,7)])
    show "\<forall>r\<in>set tbl. m' < length (weights r) \<and>
            (active m' r \<longrightarrow> group_fits ds (nrows b1) (ncols b1) (Group r))"
      using assms(2) fits that by (auto simp: table_ok_def list_all_iff)
  qed
  define acc where "acc = map (\<lambda>m. tabulate2 H W (acc_cell ds tbl m)) [0..<length mineral_names]"
  have loops: "minerals_loop ds tbl H W [0..<length mineral_names] = Inr acc"
    unfolding minerals_loop_Inr_iff [OF z] acc_def using fits sh by simp
  have a: "acc ! m ! i ! j = (if \<exists>r\<in>set tbl. active m r then NaN else Fin 0)"
    using minerals_loop_cell [OF loops z assms(4,5,6)] cell [OF assms(4)] by simp
  have zero: "np_eq (clean (acc_cell ds tbl m' i j)) (Fin 0)" if "m' < length mineral_names" for m'
    using cell [OF that] by (simp add: clean_def)
  have "out ! m ! i ! j = NaN"
    using mineral_abundance_cell [OF assms(3) b1 assms(4)] assms(5,6) sh zero by simp
  then show ?thesis using cell [OF assms(4)] loops a by blast
qed

text \<open>The second cell of the scene above is such a cell.\<close>

theorem nan_magnitude_cell_missing_witness:
  "mineral_abundance nan_ds [''A'', ''B''] nan_tbl = Inr [[[Fin 0, NaN]], [[Fin 6, NaN]]] \<and>
   rhs_cell nan_ds 0 (nan_tbl ! 1) 0 1 = NaN"
proof -
  have cs: "common_shape 1 2 nan_ds"
    by (auto simp: common_shape_def nan_ds_def rect_def split: if_splits)
  have ok: "table_ok (length [''A'', ''B'']) nan_tbl"
    by (simp add: table_ok_def nan_tbl_def)
  have run: "mineral_abundance nan_ds [''A'', ''B''] nan_tbl = Inr [[[Fin 0, NaN]], [[Fin 6, NaN]]]"
    by code_simp
  have nan: "\<forall>g bd. band_depth nan_ds g = Some bd \<longrightarrow> isnan (bd ! 0 ! 1)"
    by (auto simp: nan_ds_def split: if_splits)
  have act: "active 0 (nan_tbl ! 1)" "nan_tbl ! 1 \<in> set nan_tbl"
    by (simp_all add: active_def nan_tbl_def)
  have m: "0 < length [''A'', ''B'']" and i: "0 < (1::nat)" and j: "1 < (2::nat)"
    by simp_all
  have "rhs_cell nan_ds 0 (nan_tbl ! 1) 0 1 = NaN"
    using nan_magnitude_cell_missing [OF cs ok run m i j nan] act by blast
  then show ?thesis using run by simp
qed

section \<open>Order of the rows and duplicate rows, on exact numbers\<close>











section \<open>Order of the rows and duplicate rows in float64 (C4)\<close>

lemma fadd_r_exact: "fadd_r (\<lambda>x. x) = fadd"
proof (intro ext)
  fix a b show "fadd_r (\<lambda>x. x) a b = fadd a b" by (cases a; cases b) simp_all
qed

lemma fmul_r_exact: "fmul_r (\<lambda>x. x) = fmul"
proof (intro ext)
  fix a b show "fmul_r (\<lambda>x. x) a b = fmul a b" by (cases a; cases b) simp_all
qed

lemma np_mul_scalar_r_exact: "np_mul_scalar_r (\<lambda>x. x) = np_mul_scalar"
  by (intro ext) (simp add: np_mul_scalar_r_def np_mul_scalar_def fmul_r_exact)

lemma np_iadd_r_exact: "np_iadd_r (\<lambda>x. x) = np_iadd"
  by (intro ext) (simp add: np_iadd_r_def np_iadd_def fadd_r_exact)

lemma add_row_r_exact: "add_row_r (\<lambda>x. x) = add_row"
  unfolding add_row_r_def [abs_def] add_row_def [abs_def] fmul_r_exact np_iadd_r_exact
    np_mul_scalar_r_exact ..

lemma rows_loop_r_exact: "rows_loop_r (\<lambda>x. x) ds m rows acc = rows_loop ds m rows acc"
  by (induction ds m rows acc rule: rows_loop.induct)
     (simp_all add: add_row_r_exact split: sum.splits)

lemma minerals_loop_r_exact: "minerals_loop_r (\<lambda>x. x) ds tbl H W ms = minerals_loop ds tbl H W ms"
  by (induction ms) (simp_all add: rows_loop_r_exact split: sum.splits)

lemma mineral_abundance_r_exact:
  "mineral_abundance_r (\<lambda>x. x) ds names tbl = mineral_abundance ds names tbl"
  by (simp add: mineral_abundance_r_def mineral_abundance_def minerals_loop_r_exact
      split: option.splits sum.splits)


























section \<open>A table of one row\<close>

lemma mask_all_zero_tabulate2:
  "mask_all_zero H W (map (\<lambda>m. tabulate2 H W (f m)) [0..<M]) =
     map (\<lambda>m. tabulate2 H W (\<lambda>i j. if \<forall>m'<M. np_eq (f m' i j) (Fin 0) then NaN else f m i j))
       [0..<M]"
  unfolding mask_all_zero_def map_map comp_def
  by (rule map_cong [OF refl], rule tabulate2_cong)
     (auto simp add: all_zero_tabulate2 nth_tabulate2)

lemma single_row_abundance:
  assumes rids: "rect H W ids" and rbd: "rect H W bd" and H: "0 < H"
    and g: "Group r = 1" and ws: "weights r = w # replicate k NaN" and w: "\<not> isnan w"
    and names: "length names = Suc k"
  shows "mineral_abundance (one_group ids bd) names [r] =
           Inr (map (\<lambda>m. tabulate2 H W (\<lambda>i j.
                  if np_eq (clean (fmul (fmul (as_float (np_eq (ids ! i ! j) (Fin (of_int (Index r)))))
                                   (bd ! i ! j)) (resolve_ref w))) (Fin 0)
                  then NaN
                  else if m = 0
                       then clean (fmul (fmul (as_float (np_eq (ids ! i ! j) (Fin (of_int (Index r)))))
                                   (bd ! i ! j)) (resolve_ref w))
                       else Fin 0))
                [0..<Suc k])"
proof -
  let ?ds = "one_group ids bd"
  let ?v = "\<lambda>i j. fmul (fmul (as_float (np_eq (ids ! i ! j) (Fin (of_int (Index r))))) (bd ! i ! j))
             (resolve_ref w)"
  have l: "mineral_id ?ds (Group r) = Some ids" "band_depth ?ds (Group r) = Some bd"
    "band_depth ?ds 1 = Some bd"
    by (simp_all add: one_group_def g)
  have sh: "nrows ids = H" "ncols ids = W" "nrows bd = H" "ncols bd = W"
    using rids rbd H by (simp_all add: rect_nrows rect_ncols)
  have fit: "group_fits ?ds H W (Group r)"
    by (simp add: group_fits_def pair_shape_def l sh broadcast_dim_same)
  have a0: "active 0 r" using w ws by (simp add: active_def)
  have an: "\<not> active m r" if "0 < m" "m < Suc k" for m
    using that ws by (cases m) (simp_all add: active_def)
  have c0: "acc_cell ?ds [r] 0 i j = ?v i j" if "i < H" "j < W" for i j
    using rhs_cell_common [OF l(1,2) rids rbd that a0] ws by (simp add: acc_cell_def)
  have cn: "acc_cell ?ds [r] m i j = Fin 0" if "0 < m" "m < Suc k" for m i j
    using an [OF that] by (simp add: acc_cell_def rhs_cell_def zero_fval_def plus_fval_def)
  have all: "(\<forall>m'<Suc k. np_eq (clean (acc_cell ?ds [r] m' i j)) (Fin 0)) \<longleftrightarrow>
        np_eq (clean (?v i j)) (Fin 0)" if "i < H" "j < W" for i j
  proof
    assume "\<forall>m'<Suc k. np_eq (clean (acc_cell ?ds [r] m' i j)) (Fin 0)"
    then have "np_eq (clean (acc_cell ?ds [r] 0 i j)) (Fin 0)" by blast
    then show "np_eq (clean (?v i j)) (Fin 0)" using c0 [OF that] by simp
  next
    assume z: "np_eq (clean (?v i j)) (Fin 0)"
    show "\<forall>m'<Suc k. np_eq (clean (acc_cell ?ds [r] m' i j)) (Fin 0)"
    proof (intro allI impI)
      fix m' assume "m' < Suc k"
      then show "np_eq (clean (acc_cell ?ds [r] m' i j)) (Fin 0)"
        using z c0 [OF that] cn [of m' i j] by (cases "m' = 0") (simp_all add: clean_def)
    qed
  qed
  have "mineral_abundance ?ds names [r] =
      Inr (mask_all_zero H W (nan_to_zero
             (map (\<lambda>m. tabulate2 H W (acc_cell ?ds [r] m)) [0..<Suc k])))"
    unfolding mineral_abundance_Inr_iff using l(3) sh fit names by simp
  also have "mask_all_zero H W (nan_to_zero
             (map (\<lambda>m. tabulate2 H W (acc_cell ?ds [r] m)) [0..<Suc k]))
      = map (\<lambda>m. tabulate2 H W (\<lambda>i j.
           if \<forall>m'<Suc k. np_eq (clean (acc_cell ?ds [r] m' i j)) (Fin 0) then NaN
           else clean (acc_cell ?ds [r] m i j))) [0..<Suc k]"
    unfolding nan_to_zero_tabulate2 mask_all_zero_tabulate2 ..
  also have "\<dots> = map (\<lambda>m. tabulate2 H W (\<lambda>i j.
                  if np_eq (clean (?v i j)) (Fin 0) then NaN
                  else if m = 0 then clean (?v i j) else Fin 0)) [0..<Suc k]"
  proof (rule map_cong [OF refl], rule tabulate2_cong)
    fix m i j assume m: "m \<in> set [0..<Suc k]" and ij: "i < H" "j < W"
    show "(if \<forall>m'<Suc k. np_eq (clean (acc_cell ?ds [r] m' i j)) (Fin 0) then NaN
           else clean (acc_cell ?ds [r] m i j)) =
          (if np_eq (clean (?v i j)) (Fin 0) then NaN
           else if m = 0 then clean (?v i j) else Fin 0)"
    proof (cases "m = 0")
      case True
      then show ?thesis unfolding all [OF ij] using c0 [OF ij] by simp
    next
      case False
      then have "0 < m" "m < Suc k" using m by auto
      then have "acc_cell ?ds [r] m i j = Fin 0" by (rule cn)
      then show ?thesis unfolding all [OF ij] using False by (simp add: clean_def)
    qed
  qed
  finally show ?thesis .
qed

section \<open>Which cells are reported missing (C2)\<close>

text \<open>
  C2, as amended. Let the loops over all rows end with the arrays \<open>acc\<close>. A cell of the
  output is \<open>nan\<close> (missing) in a mineral column exactly when, after the clean-up of
  \<open>nan\<close>, the value at the cell is 0 in every mineral column: when each column of
  \<open>acc\<close> is 0 or \<open>nan\<close> there. In particular, take a scene with one spectral group
  in which exactly one cell holds mineral 5, with band depth 3, and a table of the one row
  (Index 5, Group 1) with weight 2 in the first mineral column and no entry in the other
  columns: the first column of the output is 6 at that cell, every other column is 0 at
  that cell, and every other cell is \<open>nan\<close> in every column.
\<close>

theorem missing_iff_zero_in_every_column:
  "(band_depth ds 1 = Some b1 \<and>
    minerals_loop ds tbl (nrows b1) (ncols b1) [0..<length names] = Inr acc \<and>
    m < length names \<and> i < nrows b1 \<and> j < ncols b1 \<longrightarrow>
      (\<exists>out. mineral_abundance ds names tbl = Inr out \<and>
         (out ! m ! i ! j = NaN \<longleftrightarrow>
            (\<forall>m'<length names. isnan (acc ! m' ! i ! j) \<or> acc ! m' ! i ! j = Fin 0)))) \<and>
   (rect H W ids \<and> rect H W bd \<and> i0 < H \<and> j0 < W \<and>
    ids ! i0 ! j0 = Fin 5 \<and> bd ! i0 ! j0 = Fin 3 \<and>
    (\<forall>i<H. \<forall>j<W. (i, j) \<noteq> (i0, j0) \<longrightarrow> ids ! i ! j \<noteq> Fin 5) \<and>
    length names = Suc k \<longrightarrow>
      mineral_abundance (one_group ids bd) names
          [\<lparr>Index = 5, Group = 1, weights = Fin 2 # replicate k NaN\<rparr>] =
        Inr (map (\<lambda>m. tabulate2 H W (\<lambda>i j.
                    if i = i0 \<and> j = j0 then (if m = 0 then Fin 6 else Fin 0) else NaN))
               [0..<Suc k]))"
proof (intro conjI impI)
  assume a: "band_depth ds 1 = Some b1 \<and>
    minerals_loop ds tbl (nrows b1) (ncols b1) [0..<length names] = Inr acc \<and>
    m < length names \<and> i < nrows b1 \<and> j < ncols b1"
  have z: "nrows b1 = 0 \<longrightarrow> ncols b1 = 0" by (simp add: ncols_nrows_0)
  define out where "out = mask_all_zero (nrows b1) (ncols b1) (nan_to_zero acc)"
  have run: "mineral_abundance ds names tbl = Inr out"
    using a by (simp add: mineral_abundance_def out_def)
  have acc: "acc ! m' ! i ! j = acc_cell ds tbl m' i j" if "m' < length names" for m'
    using minerals_loop_cell [OF _ z that, of ds tbl acc i j] a by simp
  have cell: "out ! m ! i ! j =
           (if \<forall>m'<length names. np_eq (clean (acc_cell ds tbl m' i j)) (Fin 0) then NaN
            else clean (acc_cell ds tbl m i j))"
    using mineral_abundance_cell [OF run, of b1 m i j] a by simp
  have all: "(\<forall>m'<length names. np_eq (clean (acc_cell ds tbl m' i j)) (Fin 0)) \<longleftrightarrow>
      (\<forall>m'<length names. isnan (acc ! m' ! i ! j) \<or> acc ! m' ! i ! j = Fin 0)"
    using acc by (simp add: np_eq_clean_zero)
  have "clean (acc_cell ds tbl m i j) \<noteq> NaN"
    by (cases "acc_cell ds tbl m i j") (simp_all add: clean_def)
  then have "out ! m ! i ! j = NaN \<longleftrightarrow>
      (\<forall>m'<length names. isnan (acc ! m' ! i ! j) \<or> acc ! m' ! i ! j = Fin 0)"
    unfolding cell all by simp
  with run show "\<exists>out. mineral_abundance ds names tbl = Inr out \<and>
         (out ! m ! i ! j = NaN \<longleftrightarrow>
            (\<forall>m'<length names. isnan (acc ! m' ! i ! j) \<or> acc ! m' ! i ! j = Fin 0))"
    by blast
next
  assume a: "rect H W ids \<and> rect H W bd \<and> i0 < H \<and> j0 < W \<and>
    ids ! i0 ! j0 = Fin 5 \<and> bd ! i0 ! j0 = Fin 3 \<and>
    (\<forall>i<H. \<forall>j<W. (i, j) \<noteq> (i0, j0) \<longrightarrow> ids ! i ! j \<noteq> Fin 5) \<and>
    length names = Suc k"
  let ?r = "\<lparr>Index = 5, Group = 1, weights = Fin 2 # replicate k NaN\<rparr>"
  have H: "0 < H" using a by auto
  have run: "mineral_abundance (one_group ids bd) names [?r] =
           Inr (map (\<lambda>m. tabulate2 H W (\<lambda>i j.
                  if np_eq (clean (fmul (fmul (as_float (np_eq (ids ! i ! j) (Fin (of_int (Index ?r)))))
                                   (bd ! i ! j)) (resolve_ref (Fin 2)))) (Fin 0)
                  then NaN
                  else if m = 0
                       then clean (fmul (fmul (as_float (np_eq (ids ! i ! j) (Fin (of_int (Index ?r)))))
                                   (bd ! i ! j)) (resolve_ref (Fin 2)))
                       else Fin 0))
                [0..<Suc k])"
    using a by (intro single_row_abundance H) simp_all
  have other: "clean (fmul (fmul (as_float (np_eq v (Fin 5))) x) (Fin 2)) = Fin 0"
    if "v \<noteq> Fin 5" for v x
    using that by (cases v; cases x) (simp_all add: as_float_def clean_def)
  show "mineral_abundance (one_group ids bd) names [?r] =
        Inr (map (\<lambda>m. tabulate2 H W (\<lambda>i j.
                    if i = i0 \<and> j = j0 then (if m = 0 then Fin 6 else Fin 0) else NaN))
               [0..<Suc k])"
    unfolding run sum.inject
  proof (rule map_cong [OF refl], rule tabulate2_cong)
    fix m i j assume ij: "i < H" "j < W"
    have r2: "resolve_ref (Fin 2) = Fin 2" by (simp add: resolve_ref_def)
    show "(if np_eq (clean (fmul (fmul (as_float (np_eq (ids ! i ! j) (Fin (of_int (Index ?r)))))
                                   (bd ! i ! j)) (resolve_ref (Fin 2)))) (Fin 0)
                  then NaN
                  else if m = 0
                       then clean (fmul (fmul (as_float (np_eq (ids ! i ! j) (Fin (of_int (Index ?r)))))
                                   (bd ! i ! j)) (resolve_ref (Fin 2)))
                       else Fin 0) =
          (if i = i0 \<and> j = j0 then (if m = 0 then Fin 6 else Fin 0) else NaN)"
    proof (cases "i = i0 \<and> j = j0")
      case True
      then show ?thesis using a by (simp add: r2 as_float_def clean_def)
    next
      case False
      then have "ids ! i ! j \<noteq> Fin 5" using a ij by auto
      from other [OF this] show ?thesis using False by (simp add: r2)
    qed
  qed
qed

text \<open>
  The theorem on the scene of the \<open>nan\<close> clean-up, whose first cell is not missing
  and whose second cell is; and on a scene of one row and two cells with mineral 5 in the
  first, for two mineral columns.
\<close>

theorem missing_iff_zero_in_every_column_witness:
  "mineral_abundance nan_ds [''A'', ''B''] nan_tbl = Inr [[[Fin 0, NaN]], [[Fin 6, NaN]]] \<and>
   mineral_abundance (one_group [[Fin 5, Fin 0]] [[Fin 3, Fin 1]]) [''A'', ''B'']
       [\<lparr>Index = 5, Group = 1, weights = [Fin 2, NaN]\<rparr>]
     = Inr [[[Fin 6, NaN]], [[Fin 0, NaN]]]"
proof -
  note main = missing_iff_zero_in_every_column
  have b1: "band_depth nan_ds 1 = Some [[Fin 3, NaN]]" by (simp add: nan_ds_def)
  have loops: "minerals_loop nan_ds nan_tbl (nrows [[Fin 3, NaN]]) (ncols [[Fin 3, NaN]])
                  [0..<length [''A'', ''B'']] = Inr [[[NaN, NaN]], [[Fin 6, NaN]]]"
    by code_simp
  have run: "mineral_abundance nan_ds [''A'', ''B''] nan_tbl = Inr [[[Fin 0, NaN]], [[Fin 6, NaN]]]"
    by code_simp
  have "\<exists>out. mineral_abundance nan_ds [''A'', ''B''] nan_tbl = Inr out \<and> out ! 0 ! 0 ! 1 = NaN"
    using main [of nan_ds "[[Fin 3, NaN]]" nan_tbl "[''A'', ''B'']" "[[[NaN, NaN]], [[Fin 6, NaN]]]"
        0 0 1, THEN conjunct1] b1 loops
    by (simp add: nrows_def ncols_def All_less_Suc)
  moreover have "mineral_abundance (one_group [[Fin 5, Fin 0]] [[Fin 3, Fin 1]]) [''A'', ''B'']
       [\<lparr>Index = 5, Group = 1, weights = Fin 2 # replicate 1 NaN\<rparr>]
     = Inr (map (\<lambda>m. tabulate2 1 2 (\<lambda>i j.
                    if i = 0 \<and> j = 0 then (if m = 0 then Fin 6 else Fin 0) else NaN))
               [0..<Suc 1])"
    using main [of _ _ _ "[''A'', ''B'']" _ _ _ _ 1 2 "[[Fin 5, Fin 0]]" "[[Fin 3, Fin 1]]" 0 0 1,
        THEN conjunct2]
    by (simp add: rect_def All_less_Suc)
  ultimately show ?thesis using run by (simp add: tabulate2_def upt_rec)
qed

text \<open>
  C2 as stated fails twice. In the scene of one cell above, column \<open>A\<close> is \<open>-3\<close> and
  column \<open>B\<close> is 3: the total over the columns is exactly 0 and the cell is not
  missing. And in the example of the claim, with a second mineral column in which the row
  has no entry, that column is 0 at the matching cell, not missing.
\<close>

theorem missing_total_counterexample:
  "mineral_abundance signed_ds [''A'', ''B''] signed_tbl = Inr [[[Fin (- 3)]], [[Fin 3]]] \<and>
   total_mineral_abundance [[[Fin (- 3)]], [[Fin 3]]] 0 0 = Fin 0 \<and>
   mineral_abundance (one_group [[Fin 5, Fin 0]] [[Fin 3, Fin 1]]) [''A'', ''B'']
       [\<lparr>Index = 5, Group = 1, weights = [Fin 2, NaN]\<rparr>]
     = Inr [[[Fin 6, NaN]], [[Fin 0, NaN]]]"
proof -
  have "mineral_abundance signed_ds [''A'', ''B''] signed_tbl = Inr [[[Fin (- 3)]], [[Fin 3]]]"
    by code_simp
  moreover have "total_mineral_abundance [[[Fin (- 3)]], [[Fin 3]]] 0 0 = Fin 0"
    by (simp add: total_mineral_abundance_def clean_def plus_fval_def zero_fval_def)
  moreover have "mineral_abundance (one_group [[Fin 5, Fin 0]] [[Fin 3, Fin 1]]) [''A'', ''B'']
       [\<lparr>Index = 5, Group = 1, weights = [Fin 2, NaN]\<rparr>]
     = Inr [[[Fin 6, NaN]], [[Fin 0, NaN]]]"
    by code_simp
  ultimately show ?thesis by simp
qed

section \<open>The marker \<open>-1\<close> and missing weights (C3)\<close>

lemma resolve_ref_cases:
  "resolve_ref w = (case w of NaN \<Rightarrow> Fin 0 | Fin x \<Rightarrow> if x = - 1 then Fin 1 else Fin x)"
  by (cases w) (simp_all add: resolve_ref_def)

lemma rows_loop_skip:
  assumes "isnan (weights r ! m)"
  shows "rows_loop ds m (zip (t1 @ r # t2) (mineral_abundance_ref (t1 @ r # t2))) acc =
         rows_loop ds m (zip (t1 @ t2) (mineral_abundance_ref (t1 @ t2))) acc"
proof (induction t1 arbitrary: acc)
  case Nil
  then show ?case using assms by (simp add: zip_ref)
next
  case (Cons a t1)
  then show ?case by (simp add: zip_ref split: sum.splits)
qed

text \<open>
  C3. In \<open>mineral_abundance_ref\<close> an entry of the table that is the marker \<open>-1\<close> has become
  the weight 1, an entry that is \<open>nan\<close> has become 0, and every other entry is unchanged. A
  row whose entry in a mineral column is \<open>nan\<close> adds nothing to that column: the loop over
  the rows gives what it gives on the table without the row. And in a scene with one
  spectral group, a table of the one row with the marker \<open>-1\<close> gives, at a cell that its
  \<open>Index\<close> matches and whose band depth is 4, the output 4.
\<close>

theorem sentinel_and_missing_weights:
  "(c < length tbl \<and> m < length (weights (tbl ! c)) \<longrightarrow>
      mineral_abundance_ref tbl ! c ! m =
        (case weights (tbl ! c) ! m of
           NaN \<Rightarrow> Fin 0
         | Fin x \<Rightarrow> if x = - 1 then Fin 1 else Fin x)) \<and>
   (isnan (weights r ! m) \<longrightarrow>
      rows_loop ds m (zip (t1 @ r # t2) (mineral_abundance_ref (t1 @ r # t2))) acc =
      rows_loop ds m (zip (t1 @ t2) (mineral_abundance_ref (t1 @ t2))) acc) \<and>
   (rect H W ids \<and> rect H W bd \<and> i0 < H \<and> j0 < W \<and>
    ids ! i0 ! j0 = Fin (of_int k) \<and> bd ! i0 ! j0 = Fin 4 \<longrightarrow>
      (\<exists>out. mineral_abundance (one_group ids bd) [name]
                [\<lparr>Index = k, Group = 1, weights = [Fin (- 1)]\<rparr>] = Inr out \<and>
             out ! 0 ! i0 ! j0 = Fin 4))"
proof (intro conjI impI)
  assume "c < length tbl \<and> m < length (weights (tbl ! c))"
  then show "mineral_abundance_ref tbl ! c ! m =
        (case weights (tbl ! c) ! m of
           NaN \<Rightarrow> Fin 0
         | Fin x \<Rightarrow> if x = - 1 then Fin 1 else Fin x)"
    by (simp add: mineral_abundance_ref_def resolve_ref_cases)
next
  assume "isnan (weights r ! m)"
  then show "rows_loop ds m (zip (t1 @ r # t2) (mineral_abundance_ref (t1 @ r # t2))) acc =
      rows_loop ds m (zip (t1 @ t2) (mineral_abundance_ref (t1 @ t2))) acc"
    by (rule rows_loop_skip)
next
  assume a: "rect H W ids \<and> rect H W bd \<and> i0 < H \<and> j0 < W \<and>
    ids ! i0 ! j0 = Fin (of_int k) \<and> bd ! i0 ! j0 = Fin 4"
  let ?r = "\<lparr>Index = k, Group = 1, weights = [Fin (- 1)]\<rparr>"
  have H: "0 < H" using a by auto
  have run: "mineral_abundance (one_group ids bd) [name] [?r] =
           Inr (map (\<lambda>m. tabulate2 H W (\<lambda>i j.
                  if np_eq (clean (fmul (fmul (as_float (np_eq (ids ! i ! j) (Fin (of_int (Index ?r)))))
                                   (bd ! i ! j)) (resolve_ref (Fin (- 1))))) (Fin 0)
                  then NaN
                  else if m = 0
                       then clean (fmul (fmul (as_float (np_eq (ids ! i ! j) (Fin (of_int (Index ?r)))))
                                   (bd ! i ! j)) (resolve_ref (Fin (- 1))))
                       else Fin 0))
                [0..<Suc 0])"
    using a by (intro single_row_abundance H) simp_all
  show "\<exists>out. mineral_abundance (one_group ids bd) [name] [?r] = Inr out \<and>
             out ! 0 ! i0 ! j0 = Fin 4"
    unfolding run using a
    by (simp add: nth_tabulate2 resolve_ref_def as_float_def clean_def)
qed

text \<open>
  The three parts on concrete inputs: the resolved weights of the example table; the
  first row of the example table, which has no entry in column \<open>B\<close>; and a scene of one
  cell with mineral 5 and band depth 4.
\<close>

theorem sentinel_and_missing_weights_witness:
  "mineral_abundance_ref example_tbl = [[Fin 2, Fin 0], [Fin 1, Fin 4]] \<and>
   rows_loop example_ds 1 (zip example_tbl (mineral_abundance_ref example_tbl)) (np_zeros 1 2) =
   rows_loop example_ds 1 (zip (tl example_tbl) (mineral_abundance_ref (tl example_tbl)))
     (np_zeros 1 2) \<and>
   mineral_abundance (one_group [[Fin 5]] [[Fin 4]]) [''A'']
     [\<lparr>Index = 5, Group = 1, weights = [Fin (- 1)]\<rparr>] = Inr [[[Fin 4]]]"
proof -
  note main = sentinel_and_missing_weights
  have ref: "mineral_abundance_ref example_tbl = [[Fin 2, Fin 0], [Fin 1, Fin 4]]"
    by (simp add: mineral_abundance_ref_def example_tbl_def resolve_ref_def)
  have "mineral_abundance_ref example_tbl ! 1 ! 0 = Fin 1"
    using main [of 1 example_tbl 0, THEN conjunct1] by (simp add: example_tbl_def)
  moreover have "rows_loop example_ds 1
       (zip ([] @ hd example_tbl # tl example_tbl)
          (mineral_abundance_ref ([] @ hd example_tbl # tl example_tbl))) (np_zeros 1 2) =
     rows_loop example_ds 1 (zip ([] @ tl example_tbl) (mineral_abundance_ref ([] @ tl example_tbl)))
       (np_zeros 1 2)"
    using main [of _ _ 1 "hd example_tbl" example_ds "[]" "tl example_tbl" "np_zeros 1 2",
        THEN conjunct2, THEN conjunct1]
    by (simp add: example_tbl_def)
  moreover have "\<exists>out. mineral_abundance (one_group [[Fin 5]] [[Fin 4]]) [''A'']
                [\<lparr>Index = 5, Group = 1, weights = [Fin (- 1)]\<rparr>] = Inr out \<and>
             out ! 0 ! 0 ! 0 = Fin 4"
    using main [of _ _ _ _ _ _ _ _ 1 1 "[[Fin 5]]" "[[Fin 4]]" 0 0 5 "''A''",
        THEN conjunct2, THEN conjunct2]
    by (simp add: rect_def)
  moreover have "mineral_abundance (one_group [[Fin 5]] [[Fin 4]]) [''A'']
     [\<lparr>Index = 5, Group = 1, weights = [Fin (- 1)]\<rparr>] = Inr [[[Fin 4]]]"
    by code_simp
  ultimately show ?thesis using ref by (simp add: example_tbl_def)
qed

section \<open>No shape check before the loops (C7)\<close>

text \<open>
  C7, as amended, for the aggregator. No shape is checked before the loops run. The
  aggregation returns exactly when \<open>group_1_band_depth\<close> is in the dataset and, for every
  row and every mineral column in which the row has an entry, both layers of the row's
  group are in the dataset and broadcast, together, to the shape of
  \<open>group_1_band_depth\<close>; otherwise it ends in an error (\<open>KeyError\<close> or
  \<open>ValueError\<close>). So a pair of layers of different shapes is accepted when the shapes
  broadcast, and is never looked at when no row with an entry refers to its group.
\<close>

theorem abundance_succeeds_iff:
  "(\<exists>out. mineral_abundance ds names tbl = Inr out) \<longleftrightarrow>
     (\<exists>b1. band_depth ds 1 = Some b1 \<and>
        (\<forall>m<length names. \<forall>r\<in>set tbl. active m r \<longrightarrow>
            group_fits ds (nrows b1) (ncols b1) (Group r)))"
  unfolding mineral_abundance_Inr_iff by blast

text \<open>
  A scene whose mineral id layer has shape \<open>(1, 1)\<close> and whose band depth layer has shape
  \<open>(1, 2)\<close>: the row fits, and the aggregation returns.
\<close>

theorem abundance_succeeds_iff_witness:
  "band_depth (one_group [[Fin 5]] [[Fin 3, Fin 4]]) 1 = Some [[Fin 3, Fin 4]] \<and>
   group_fits (one_group [[Fin 5]] [[Fin 3, Fin 4]]) 1 2 1 \<and>
   (\<exists>out. mineral_abundance (one_group [[Fin 5]] [[Fin 3, Fin 4]]) [''A'']
            [\<lparr>Index = 5, Group = 1, weights = [Fin 2]\<rparr>] = Inr out)"
proof -
  have b1: "band_depth (one_group [[Fin 5]] [[Fin 3, Fin 4]]) 1 = Some [[Fin 3, Fin 4]]"
    by (simp add: one_group_def)
  have fit: "group_fits (one_group [[Fin 5]] [[Fin 3, Fin 4]]) 1 2 1"
    by (simp add: group_fits_def pair_shape_def one_group_def nrows_def ncols_def broadcast_dim_def)
  have "\<exists>b1. band_depth (one_group [[Fin 5]] [[Fin 3, Fin 4]]) 1 = Some b1 \<and>
        (\<forall>m<length [''A'']. \<forall>r\<in>set [\<lparr>Index = 5, Group = 1, weights = [Fin 2]\<rparr>]. active m r \<longrightarrow>
            group_fits (one_group [[Fin 5]] [[Fin 3, Fin 4]]) (nrows b1) (ncols b1) (Group r))"
    using b1 fit by (simp add: nrows_def ncols_def numeral_2_eq_2)
  then have "\<exists>out. mineral_abundance (one_group [[Fin 5]] [[Fin 3, Fin 4]]) [''A'']
            [\<lparr>Index = 5, Group = 1, weights = [Fin 2]\<rparr>] = Inr out"
    using abundance_succeeds_iff [of "one_group [[Fin 5]] [[Fin 3, Fin 4]]" "[''A'']"
        "[\<lparr>Index = 5, Group = 1, weights = [Fin 2]\<rparr>]"]
    by blast
  with b1 fit show ?thesis by blast
qed

text \<open>
  C7 as stated fails in that scene: the paired layers of group 1 have different shapes,
  and the aggregation returns an output, the id layer being broadcast along the row.
\<close>

theorem shape_mismatch_counterexample:
  "nrows [[Fin 5]] = 1 \<and> ncols [[Fin 5]] = 1 \<and>
   nrows [[Fin 3, Fin 4]] = 1 \<and> ncols [[Fin 3, Fin 4]] = 2 \<and>
   mineral_abundance (one_group [[Fin 5]] [[Fin 3, Fin 4]]) [''A'']
     [\<lparr>Index = 5, Group = 1, weights = [Fin 2]\<rparr>] = Inr [[[Fin 6, Fin 8]]]"
proof -
  have "mineral_abundance (one_group [[Fin 5]] [[Fin 3, Fin 4]]) [''A'']
     [\<lparr>Index = 5, Group = 1, weights = [Fin 2]\<rparr>] = Inr [[[Fin 6, Fin 8]]]"
    by code_simp
  then show ?thesis by (simp add: nrows_def ncols_def)
qed

section \<open>The remapper as a gather (C5)\<close>

lemma remap_nth:
  "l < length layers \<Longrightarrow> i < length index_map \<Longrightarrow> j < length (index_map ! i) \<Longrightarrow>
   remap layers index_map ! l ! i ! j = gather (layers ! l) (index_map ! i ! j)"
  by (simp add: remap_def)

lemma gather_identity:
  assumes "rect R C a" and "i < R" and "j < C"
  shows "gather a (int i + 1, int j + 1) = a ! i ! j"
  using assms rect_nrows [OF assms(1)] rect_ncols [OF assms(1)]
  by (simp add: gather_def)

text \<open>
  C5. Let every source layer have shape \<open>(R, C)\<close>. At a cell whose raw index pair is
  valid and within the source, the output of every layer is the sample of its source
  layer at the decoded pair; and with the identity index map the output is the list of
  source layers itself.
\<close>

theorem remap_is_gather:
  "(list_all (rect R C) layers \<and> l < length layers \<and>
    i < length index_map \<and> j < length (index_map ! i) \<and> index_map ! i ! j = (r1, c1) \<and>
    0 < r1 \<and> r1 \<le> int R \<and> 0 < c1 \<and> c1 \<le> int C \<longrightarrow>
      remap layers index_map ! l ! i ! j = layers ! l ! nat (r1 - 1) ! nat (c1 - 1)) \<and>
   (list_all (rect R C) layers \<longrightarrow> remap layers (identity_map R C) = layers)"
proof (intro conjI impI)
  assume a: "list_all (rect R C) layers \<and> l < length layers \<and>
    i < length index_map \<and> j < length (index_map ! i) \<and> index_map ! i ! j = (r1, c1) \<and>
    0 < r1 \<and> r1 \<le> int R \<and> 0 < c1 \<and> c1 \<le> int C"
  then have r: "rect R C (layers ! l)" by (simp add: list_all_length)
  have R: "0 < R" using a by auto
  show "remap layers index_map ! l ! i ! j = layers ! l ! nat (r1 - 1) ! nat (c1 - 1)"
    using a rect_nrows [OF r] rect_ncols [OF r R]
    by (auto simp: remap_nth gather_def Let_def)
next
  assume a: "list_all (rect R C) layers"
  have "map (map (gather s)) (identity_map R C) = s" if "rect R C s" for s
  proof -
    have "map (map (gather s)) (identity_map R C) = tabulate2 R C (\<lambda>i j. s ! i ! j)"
      unfolding identity_map_def map_map_tabulate2
      by (rule tabulate2_cong) (rule gather_identity [OF that])
    then show ?thesis using that by (simp add: tabulate2_nth)
  qed
  then show "remap layers (identity_map R C) = layers"
    using a unfolding remap_def by (simp add: list_all_iff map_idI)
qed

theorem remap_is_gather_witness:
  "remap [[[Fin 1, Fin 2], [Fin 3, Fin 4]]] [[(2, 1), (1, 2)]] = [[[Fin 3, Fin 2]]] \<and>
   remap [[[Fin 1, Fin 2], [Fin 3, Fin 4]]] (identity_map 2 2) = [[[Fin 1, Fin 2], [Fin 3, Fin 4]]]"
proof -
  note main = remap_is_gather
  have r: "list_all (rect 2 2) [[[Fin 1, Fin 2], [Fin 3, Fin 4]]]" by (simp add: rect_def)
  have "remap [[[Fin 1, Fin 2], [Fin 3, Fin 4]]] [[(2, 1), (1, 2)]] ! 0 ! 0 ! 0 = Fin 3"
    using main [of 2 2 "[[[Fin 1, Fin 2], [Fin 3, Fin 4]]]" 0 0 "[[(2, 1), (1, 2)]]" 0 2 1,
        THEN conjunct1] r
    by simp
  moreover have "remap [[[Fin 1, Fin 2], [Fin 3, Fin 4]]] (identity_map 2 2)
      = [[[Fin 1, Fin 2], [Fin 3, Fin 4]]]"
    using main [of 2 2 "[[[Fin 1, Fin 2], [Fin 3, Fin 4]]]", THEN conjunct2] r by simp
  moreover have "remap [[[Fin 1, Fin 2], [Fin 3, Fin 4]]] [[(2, 1), (1, 2)]] = [[[Fin 3, Fin 2]]]"
    by (simp add: remap_def gather_def nrows_def ncols_def)
  ultimately show ?thesis by simp
qed

section \<open>Cells of the index map with no source (C6)\<close>

text \<open>
  C6. Let every source layer have shape \<open>(R, C)\<close>. At a cell whose raw index pair is not
  positive, or points beyond the \<open>R\<close> rows or the \<open>C\<close> columns of the source, the output
  of every layer is missing (\<open>nan\<close>), whatever the source layers hold. The remapper is a
  total function: it has no error to raise.
\<close>

theorem remap_invalid_is_missing:
  assumes "list_all (rect R C) layers" and "l < length layers"
    and "i < length index_map" and "j < length (index_map ! i)"
    and "index_map ! i ! j = (r1, c1)"
    and "r1 \<le> 0 \<or> c1 \<le> 0 \<or> int R < r1 \<or> int C < c1"
  shows "remap layers index_map ! l ! i ! j = NaN"
proof -
  have r: "rect R C (layers ! l)" using assms(1,2) by (simp add: list_all_length)
  have n: "nrows (layers ! l) = R" using r by (rule rect_nrows)
  have c: "ncols (layers ! l) = C" if "0 < R" using rect_ncols [OF r that] .
  have c0: "ncols (layers ! l) = 0" if "R = 0" using that n by (simp add: ncols_nrows_0)
  show ?thesis
    using assms(2-6) n c c0
    by (cases "R = 0") (auto simp: remap_nth gather_def Let_def)
qed

theorem remap_invalid_is_missing_witness:
  "remap [[[Fin 1, Fin 2], [Fin 3, Fin 4]]] [[(0, 0), (3, 1), (1, 2)]] = [[[NaN, NaN, Fin 2]]]"
proof -
  have r: "list_all (rect 2 2) [[[Fin 1, Fin 2], [Fin 3, Fin 4]]]" by (simp add: rect_def)
  have "remap [[[Fin 1, Fin 2], [Fin 3, Fin 4]]] [[(0, 0), (3, 1), (1, 2)]] ! 0 ! 0 ! 1 = NaN"
    using remap_invalid_is_missing [OF r, of 0 0 "[[(0, 0), (3, 1), (1, 2)]]" 1 3 1] by simp
  moreover have "remap [[[Fin 1, Fin 2], [Fin 3, Fin 4]]] [[(0, 0), (3, 1), (1, 2)]]
      = [[[NaN, NaN, Fin 2]]]"
    by (simp add: remap_def gather_def nrows_def ncols_def)
  ultimately show ?thesis by simp
qed

end
